theory Spec2Isabelle
  imports Main
begin

section \<open>The voice transcription stub: \<^verbatim>\<open>ai_services/voice_transcription/app.py\<close>\<close>

subsection \<open>Python values, exceptions, JSON and responses\<close>

text \<open>
  The exceptions that the modelled code paths can raise: \<^verbatim>\<open>ValueError\<close> from
  \<^verbatim>\<open>int()\<close>, \<^verbatim>\<open>ImportError\<close> from a \<^verbatim>\<open>from ... import\<close> statement, \<^verbatim>\<open>KeyError\<close> from a
  dictionary lookup, and the two HTTP exceptions of the routing layer.
\<close>

datatype error = ValueError | ImportError | KeyError | NotFound | MethodNotAllowed

text \<open>
  The JSON values that occur in the two payloads. A Python dict literal is kept as an
  association list in the order in which the source writes its keys.
\<close>

datatype json = JString string | JArray "json list" | JObject "(string \<times> json) list"

record response =
  status_code :: nat
  mimetype :: string
  payload :: "json option"

text \<open>
  \<^verbatim>\<open>jsonify(obj)\<close>: a response with the default status 200 and the JSON mimetype whose
  body is the serialised object.
\<close>

definition jsonify :: "json \<Rightarrow> response" where
  "jsonify obj = \<lparr>status_code = 200, mimetype = ''application/json'', payload = Some obj\<rparr>"

text \<open>Indexing a JSON object by a key, as \<^verbatim>\<open>obj[key]\<close> on the dict it came from.\<close>

definition json_get :: "json \<Rightarrow> string \<Rightarrow> json option" where
  "json_get j k = (case j of JObject kvs \<Rightarrow> map_of kvs k | _ \<Rightarrow> None)"

subsection \<open>The process state\<close>

text \<open>
  A registered URL rule: the rule text, the declared method list and the endpoint. For a
  rule that \<^verbatim>\<open>@app.route(rule, methods=[...])\<close> registers the endpoint is the name of the
  decorated function.
\<close>

record route =
  rule :: string
  methods :: "string list"
  endpoint :: string

text \<open>
  What the process holds at module level: \<^verbatim>\<open>os.environ\<close>, the rules of \<^verbatim>\<open>app.url_map\<close>, and
  what \<^verbatim>\<open>app.send_static_file\<close> answers for a file name and the headers of a request. The
  files of the static folder are not part of the source, so the last one is a parameter
  of the model: nothing is assumed about it.
\<close>

record process =
  os_environ :: "string \<rightharpoonup> string"
  url_map :: "route list"
  send_static_file :: "string \<Rightarrow> (string \<times> string) list \<Rightarrow> error + response"

text \<open>
  A request as the server hands it to the application: the method and the path are the
  strings of the request line, one character per byte.
\<close>

record request =
  "method" :: string
  path :: string
  headers :: "(string \<times> string) list"
  data :: string

subsection \<open>The two view functions\<close>

text \<open>
  Both functions take no argument; they are modelled as state transformers so that what
  they do to the process state is part of the model.
\<close>

definition health_check :: "process \<Rightarrow> response \<times> process" where
  "health_check s =
     (jsonify (JObject
        [(''status'', JString ''healthy''),
         (''service'', JString ''voice_transcription''),
         (''version'', JString ''1.0.0'')]), s)"

definition root :: "process \<Rightarrow> response \<times> process" where
  "root s =
     (jsonify (JObject
        [(''message'', JString ''Voice Transcription Service''),
         (''status'', JString ''running''),
         (''endpoints'', JArray [JString ''/health''])]), s)"

text \<open>
  \<^verbatim>\<open>app.view_functions\<close>, called as \<^verbatim>\<open>view_functions[endpoint](**view_args)\<close>. Next to the two
  decorated functions it holds the view \<^verbatim>\<open>static\<close> that \<^verbatim>\<open>Flask(__name__)\<close> installs, which
  passes its \<^verbatim>\<open>filename\<close> argument to \<^verbatim>\<open>send_static_file\<close>. A view gets the arguments of the
  matched rule, and the headers of the request stand for what it can read of the
  request; an exception that leaves a view is the left summand.
\<close>

definition static_view ::
    "(string \<times> string) list \<Rightarrow> (string \<times> string) list \<Rightarrow> process \<Rightarrow> (error + response) \<times> process" where
  "static_view view_args hs s =
     (case map_of view_args ''filename'' of
        None \<Rightarrow> (Inl KeyError, s)
      | Some filename \<Rightarrow> (send_static_file s filename hs, s))"

definition view_functions ::
    "string \<Rightarrow> ((string \<times> string) list \<Rightarrow> (string \<times> string) list \<Rightarrow> process
                 \<Rightarrow> (error + response) \<times> process) option" where
  "view_functions ep =
     (if ep = ''static'' then Some static_view
      else if ep = ''health_check''
        then Some (\<lambda>view_args hs s. case health_check s of (resp, s') \<Rightarrow> (Inr resp, s'))
      else if ep = ''root''
        then Some (\<lambda>view_args hs s. case root s of (resp, s') \<Rightarrow> (Inr resp, s'))
      else None)"

subsection \<open>Module body\<close>

text \<open>
  \<^verbatim>\<open>load_dotenv()\<close> reads the variables of a \<^verbatim>\<open>.env\<close> file into \<^verbatim>\<open>os.environ\<close> without
  overriding a variable that is already set (\<^verbatim>\<open>override=False\<close> is the default). The
  content of the file is a parameter.
\<close>

definition load_dotenv :: "(string \<rightharpoonup> string) \<Rightarrow> process \<Rightarrow> process" where
  "load_dotenv dotenv s = s\<lparr>os_environ := dotenv ++ os_environ s\<rparr>"

text \<open>
  \<^verbatim>\<open>app = Flask(__name__)\<close> creates the table of rules and registers the rule of the static
  folder in it. That rule is added without a method list, which stands for \<^verbatim>\<open>GET\<close>.
\<close>

definition Flask :: "process \<Rightarrow> process" where
  "Flask s =
     s\<lparr>url_map := [\<lparr>rule = ''/static/<path:filename>'', methods = [''GET''],
                      endpoint = ''static''\<rparr>]\<rparr>"

text \<open>\<^verbatim>\<open>@app.route(r, methods=ms)\<close> on a function named \<open>ep\<close> appends one rule.\<close>

definition app_route :: "string \<Rightarrow> string list \<Rightarrow> string \<Rightarrow> process \<Rightarrow> process" where
  "app_route r ms ep s = s\<lparr>url_map := url_map s @ [\<lparr>rule = r, methods = ms, endpoint = ep\<rparr>]\<rparr>"

text \<open>
  The module body up to the \<^verbatim>\<open>__main__\<close> guard, run on the \<^verbatim>\<open>.env\<close> file, the environment
  the process starts with and the static folder: \<^verbatim>\<open>load_dotenv()\<close>, \<^verbatim>\<open>app = Flask(__name__)\<close>,
  \<^verbatim>\<open>CORS(app)\<close> (which adds response headers only, and headers of responses are not
  modelled), and the two decorated definitions.
\<close>

definition module_body ::
    "(string \<rightharpoonup> string) \<Rightarrow> (string \<rightharpoonup> string)
       \<Rightarrow> (string \<Rightarrow> (string \<times> string) list \<Rightarrow> error + response) \<Rightarrow> process" where
  "module_body dotenv environ static_folder =
     (let s0 = load_dotenv dotenv
                 \<lparr>os_environ = environ, url_map = [], send_static_file = static_folder\<rparr>;
          s1 = Flask s0;
          s2 = app_route ''/health'' [''GET''] ''health_check'' s1;
          s3 = app_route ''/'' [''GET''] ''root'' s2
      in s3)"

subsection \<open>Request dispatching\<close>

text \<open>
  \<^verbatim>\<open>str.upper()\<close> on the characters a request line can hold (code points below 256). The
  upper-case forms of \<^verbatim>\<open>0xB5\<close> and \<^verbatim>\<open>0xFF\<close> lie above 255; they are left as they are, which
  makes no difference to a comparison with a method name.
\<close>

definition lower_letters :: string where
  "lower_letters = ''abcdefghijklmnopqrstuvwxyz'' @
     [CHR 0xE0, CHR 0xE1, CHR 0xE2, CHR 0xE3, CHR 0xE4, CHR 0xE5, CHR 0xE6, CHR 0xE7,
      CHR 0xE8, CHR 0xE9, CHR 0xEA, CHR 0xEB, CHR 0xEC, CHR 0xED, CHR 0xEE, CHR 0xEF,
      CHR 0xF0, CHR 0xF1, CHR 0xF2, CHR 0xF3, CHR 0xF4, CHR 0xF5, CHR 0xF6,
      CHR 0xF8, CHR 0xF9, CHR 0xFA, CHR 0xFB, CHR 0xFC, CHR 0xFD, CHR 0xFE]"

definition upper_letters :: string where
  "upper_letters = ''ABCDEFGHIJKLMNOPQRSTUVWXYZ'' @
     [CHR 0xC0, CHR 0xC1, CHR 0xC2, CHR 0xC3, CHR 0xC4, CHR 0xC5, CHR 0xC6, CHR 0xC7,
      CHR 0xC8, CHR 0xC9, CHR 0xCA, CHR 0xCB, CHR 0xCC, CHR 0xCD, CHR 0xCE, CHR 0xCF,
      CHR 0xD0, CHR 0xD1, CHR 0xD2, CHR 0xD3, CHR 0xD4, CHR 0xD5, CHR 0xD6,
      CHR 0xD8, CHR 0xD9, CHR 0xDA, CHR 0xDB, CHR 0xDC, CHR 0xDD, CHR 0xDE]"

definition upper_char :: "char \<Rightarrow> string" where
  "upper_char c =
     (if c = CHR 0xDF then ''SS''
      else case map_of (zip lower_letters upper_letters) c of
             Some u \<Rightarrow> [u]
           | None \<Rightarrow> [c])"

definition upper :: "string \<Rightarrow> string" where
  "upper s = concat (map upper_char s)"

text \<open>
  The methods a rule answers, which are more than the declared ones. Flask's
  \<^verbatim>\<open>add_url_rule\<close>, which \<^verbatim>\<open>app.route\<close> calls, adds \<^verbatim>\<open>OPTIONS\<close> to a rule that does not list
  it and marks the rule for an automatic answer; Werkzeug's \<^verbatim>\<open>Rule\<close> adds \<^verbatim>\<open>HEAD\<close> to a
  rule that lists \<^verbatim>\<open>GET\<close>. Both put the declared names in upper case first.
\<close>

definition provide_automatic_options :: "route \<Rightarrow> bool" where
  "provide_automatic_options r = (''OPTIONS'' \<notin> set (map upper (methods r)))"

definition rule_methods :: "route \<Rightarrow> string list" where
  "rule_methods r =
     (let declared = map upper (methods r);
          ms = (if provide_automatic_options r then declared @ [''OPTIONS''] else declared)
      in if ''HEAD'' \<notin> set ms \<and> ''GET'' \<in> set ms then ms @ [''HEAD''] else ms)"

text \<open>
  The path that is matched: the leading slashes of the request path are replaced by
  one.
\<close>

definition path_part :: "string \<Rightarrow> string" where
  "path_part p = (if p = [] then [] else CHR ''/'' # dropWhile (\<lambda>c. c = CHR ''/'') p)"

text \<open>
  Matching a path against a rule text gives the arguments of the view. A rule without a
  variable part matches the path equal to it. A rule that ends in a \<^verbatim>\<open><path:name>\<close> part
  matches a path that continues its fixed part with a non-empty text that does not begin
  with a slash. Rules of another shape do not occur.
\<close>

definition rule_match :: "string \<Rightarrow> string \<Rightarrow> (string \<times> string) list option" where
  "rule_match r p =
     (let fixed = takeWhile (\<lambda>c. c \<noteq> CHR ''<'') r;
          var = dropWhile (\<lambda>c. c \<noteq> CHR ''<'') r;
          arg = drop (length fixed) p
      in if var = [] then (if p = r then Some [] else None)
         else if take 6 var = ''<path:'' \<and> last var = CHR ''>''
                 \<and> take (length fixed) p = fixed \<and> arg \<noteq> [] \<and> hd arg \<noteq> CHR ''/''
         then Some [(butlast (drop 6 var), arg)]
         else None)"

text \<open>
  Matching a request against the rules: the first rule that matches the path and answers
  the method, put in upper case, wins; a path that matched with other methods only gives
  405, no match gives 404. (No path matches two of the rules of this application, so the
  order in which the rules are tried makes no difference.)
\<close>

fun match_request ::
    "route list \<Rightarrow> bool \<Rightarrow> ('a request_scheme) \<Rightarrow> error + (route \<times> (string \<times> string) list)" where
  "match_request [] have_match req = Inl (if have_match then MethodNotAllowed else NotFound)"
| "match_request (r # rs) have_match req =
     (case rule_match (rule r) (path_part (path req)) of
        None \<Rightarrow> match_request rs have_match req
      | Some view_args \<Rightarrow>
          if upper (method req) \<in> set (rule_methods r) then Inr (r, view_args)
          else match_request rs True req)"

definition error_response :: "error \<Rightarrow> response" where
  "error_response e =
     \<lparr>status_code = (case e of NotFound \<Rightarrow> 404 | MethodNotAllowed \<Rightarrow> 405 | _ \<Rightarrow> 500),
      mimetype = ''text/html'', payload = None\<rparr>"

definition default_options_response :: response where
  "default_options_response = \<lparr>status_code = 200, mimetype = ''text/html'', payload = None\<rparr>"

text \<open>
  Dispatching one request. The result names the view function that was called, if one
  was, next to the response. An \<^verbatim>\<open>OPTIONS\<close> request to a rule with automatic options is
  answered without calling the view function. An exception that leaves the view is
  turned into its error response.
\<close>

definition dispatch_request ::
    "('a request_scheme) \<Rightarrow> process \<Rightarrow> (string option \<times> response) \<times> process" where
  "dispatch_request req s =
     (case match_request (url_map s) False req of
        Inl e \<Rightarrow> ((None, error_response e), s)
      | Inr (r, view_args) \<Rightarrow>
          if provide_automatic_options r \<and> upper (method req) = ''OPTIONS''
          then ((None, default_options_response), s)
          else (case view_functions (endpoint r) of
                  None \<Rightarrow> ((None, error_response KeyError), s)
                | Some f \<Rightarrow>
                    (case f view_args (headers req) s of
                       (Inl e, s') \<Rightarrow> ((Some (endpoint r), error_response e), s')
                     | (Inr resp, s') \<Rightarrow> ((Some (endpoint r), resp), s'))))"

text \<open>
  The response as it leaves the application: the body of the answer to a request whose
  method is written \<^verbatim>\<open>HEAD\<close> is dropped.
\<close>

definition wsgi_app ::
    "('a request_scheme) \<Rightarrow> process \<Rightarrow> (string option \<times> response) \<times> process" where
  "wsgi_app req s =
     (case dispatch_request req s of
        ((called, resp), s') \<Rightarrow>
          ((called, if method req = ''HEAD'' then resp\<lparr>payload := None\<rparr> else resp), s'))"

text \<open>Serving a sequence of requests one after the other.\<close>

fun serve :: "('a request_scheme) list \<Rightarrow> process \<Rightarrow> response list \<times> process" where
  "serve [] s = ([], s)"
| "serve (req # reqs) s =
     (case wsgi_app req s of
        ((called, resp), s') \<Rightarrow> (case serve reqs s' of (resps, s'') \<Rightarrow> (resp # resps, s'')))"

subsection \<open>The \<^verbatim>\<open>__main__\<close> block\<close>

text \<open>
  \<^verbatim>\<open>os.environ.get('PORT', 9001)\<close> gives the string stored under the key, or the integer
  default; \<^verbatim>\<open>int()\<close> takes either.
\<close>

datatype pyval = PyStr string | PyInt int

definition environ_get :: "process \<Rightarrow> string \<Rightarrow> pyval \<Rightarrow> pyval" where
  "environ_get s k dflt = (case os_environ s k of None \<Rightarrow> dflt | Some v \<Rightarrow> PyStr v)"

text \<open>
  The literal syntax of \<^verbatim>\<open>int(s)\<close>, base 10, for a string of ASCII characters: white space
  around the literal is skipped, one sign may come first, and the digits may be separated
  by single underscores; anything else raises \<^verbatim>\<open>ValueError\<close>.
\<close>

definition is_space :: "char \<Rightarrow> bool" where
  "is_space c = (c \<in> set [CHR '' '', CHR 0x09, CHR 0x0A, CHR 0x0B, CHR 0x0C, CHR 0x0D])"

definition is_digit :: "char \<Rightarrow> bool" where
  "is_digit c = (c \<in> set ''0123456789'')"

definition digit_value :: "char \<Rightarrow> nat" where
  "digit_value c = of_char c - of_char CHR ''0''"

text \<open>
  The digit loop: it reads digits and single underscores between digits into the
  accumulator and stops at the first other character, returning what is left.
\<close>

fun scan_digits :: "nat \<Rightarrow> string \<Rightarrow> (nat \<times> string) option" where
  "scan_digits acc [] = Some (acc, [])"
| "scan_digits acc [c] =
     (if is_digit c then Some (10 * acc + digit_value c, [])
      else if c = CHR ''_'' then None
      else Some (acc, [c]))"
| "scan_digits acc (c # d # cs) =
     (if is_digit c then scan_digits (10 * acc + digit_value c) (d # cs)
      else if c = CHR ''_'' then
        (if is_digit d then scan_digits (10 * acc + digit_value d) cs else None)
      else Some (acc, c # d # cs))"

definition unsigned :: "string \<Rightarrow> string" where
  "unsigned s = (if s \<noteq> [] \<and> (hd s = CHR ''+'' \<or> hd s = CHR ''-'') then tl s else s)"

definition int_literal :: "string \<Rightarrow> error + int" where
  "int_literal s =
     (let s1 = dropWhile is_space s;
          negative = (s1 \<noteq> [] \<and> hd s1 = CHR ''-'');
          s2 = unsigned s1
      in if s2 = [] \<or> \<not> is_digit (hd s2) then Inl ValueError
         else (case scan_digits 0 s2 of
                 None \<Rightarrow> Inl ValueError
               | Some (n, rest) \<Rightarrow>
                   if dropWhile is_space rest = []
                   then Inr (if negative then - int n else int n)
                   else Inl ValueError))"

text \<open>
  The strings on which \<^verbatim>\<open>int()\<close> is modelled: ASCII characters only, and at most 640 of
  them. Beyond ASCII the white space and the digits that \<^verbatim>\<open>int()\<close> reads are those of the
  interpreter's Unicode tables, and on a numeral of more than 640 digits the answer
  depends on the digit limit the interpreter is configured with; on such a string the
  model gives no answer (\<open>None\<close>), and no statement is made about it.
\<close>

definition ascii_short :: "string \<Rightarrow> bool" where
  "ascii_short s = (list_all (\<lambda>c. (of_char c :: nat) < 128) s \<and> length s \<le> 640)"

fun py_int :: "pyval \<Rightarrow> (error + int) option" where
  "py_int (PyInt n) = Some (Inr n)"
| "py_int (PyStr s) = (if ascii_short s then Some (int_literal s) else None)"

text \<open>
  What the \<^verbatim>\<open>__main__\<close> block does: either an exception leaves it, or it reaches
  \<^verbatim>\<open>app.run(host, port, debug)\<close>, which starts the listener on that host and port.
\<close>

datatype outcome = Raised error | App_run string int bool

definition main :: "process \<Rightarrow> outcome option" where
  "main s =
     (case py_int (environ_get s ''PORT'' (PyInt 9001)) of
        None \<Rightarrow> None
      | Some (Inl e) \<Rightarrow> Some (Raised e)
      | Some (Inr port) \<Rightarrow> Some (App_run ''0.0.0.0'' port True))"

text \<open>Running the file as a script: the module body, then the \<^verbatim>\<open>__main__\<close> block.\<close>

definition run_script ::
    "(string \<rightharpoonup> string) \<Rightarrow> (string \<rightharpoonup> string)
       \<Rightarrow> (string \<Rightarrow> (string \<times> string) list \<Rightarrow> error + response) \<Rightarrow> outcome option" where
  "run_script dotenv environ static_folder = main (module_body dotenv environ static_folder)"

text \<open>The decimal numeral of a natural number, as \<^verbatim>\<open>str(n)\<close> writes it.\<close>

definition digit_char :: "nat \<Rightarrow> char" where
  "digit_char d = ''0123456789'' ! d"

function str_nat :: "nat \<Rightarrow> string" where
  "str_nat n = (if n < 10 then [digit_char n] else str_nat (n div 10) @ [digit_char (n mod 10)])"
  by pat_completeness auto
termination
  by (relation "measure id") auto

declare str_nat.simps [simp del]






section \<open>The legacy module: \<^verbatim>\<open>ai_services/pre_diagnosis_summary\<close>\<close>

text \<open>
  A module body as the list of its top-level statements that bind a name: a class
  definition with the names of its methods, a function definition, an assignment.
\<close>

datatype stmt = ClassDef string "string list" | FunctionDef string | Assign string

fun bound_name :: "stmt \<Rightarrow> string" where
  "bound_name (ClassDef name ms) = name"
| "bound_name (FunctionDef name) = name"
| "bound_name (Assign name) = name"

fun method_names :: "stmt \<Rightarrow> string list" where
  "method_names (ClassDef name ms) = ms"
| "method_names (FunctionDef name) = []"
| "method_names (Assign name) = []"

text \<open>
  \<^verbatim>\<open>pre_diagnosis_summary_service.py\<close> consists of comment lines and one empty line: its
  body has no statement.
\<close>

definition pre_diagnosis_summary_service :: "stmt list" where
  "pre_diagnosis_summary_service = []"

text \<open>The attributes every module object has before its body runs.\<close>

definition module_attributes :: "string list" where
  "module_attributes =
     [''__name__'', ''__doc__'', ''__package__'', ''__loader__'', ''__spec__'',
      ''__file__'', ''__cached__'', ''__builtins__'']"

text \<open>
  \<^verbatim>\<open>from m import name\<close>: the name is looked up in the namespace of the executed module;
  a name that is not there raises \<^verbatim>\<open>ImportError\<close>. The result is the statement that
  bound the name, if one did.
\<close>

definition import_from :: "stmt list \<Rightarrow> string \<Rightarrow> error + stmt option" where
  "import_from body name =
     (case find (\<lambda>st. bound_name st = name) (rev body) of
        Some st \<Rightarrow> Inr (Some st)
      | None \<Rightarrow> if name \<in> set module_attributes then Inr None else Inl ImportError)"

text \<open>
  Line 2 of \<^verbatim>\<open>tests/test_pre_diagnosis_summary_service.py\<close>, the first statement of the
  test module after \<^verbatim>\<open>import unittest\<close>.
\<close>

definition test_module_import :: "error + stmt option" where
  "test_module_import = import_from pre_diagnosis_summary_service ''PreDiagnosisSummaryService''"

section \<open>Properties\<close>

lemma url_map_module_body:
  "url_map (module_body dotenv environ static_folder) =
     [\<lparr>rule = ''/static/<path:filename>'', methods = [''GET''], endpoint = ''static''\<rparr>,
      \<lparr>rule = ''/health'', methods = [''GET''], endpoint = ''health_check''\<rparr>,
      \<lparr>rule = ''/'', methods = [''GET''], endpoint = ''root''\<rparr>]"
  by (simp add: module_body_def load_dotenv_def Flask_def app_route_def)

lemma send_static_file_module_body:
  "send_static_file (module_body dotenv environ static_folder) = static_folder"
  by (simp add: module_body_def load_dotenv_def Flask_def app_route_def)

lemma upper_GET: "upper ''GET'' = ''GET''"
  by (simp add: upper_def upper_char_def lower_letters_def upper_letters_def)

lemma upper_HEAD: "upper ''HEAD'' = ''HEAD''"
  by (simp add: upper_def upper_char_def lower_letters_def upper_letters_def)

lemma rule_methods_GET:
  "rule_methods \<lparr>rule = p, methods = [''GET''], endpoint = ep\<rparr> = [''GET'', ''OPTIONS'', ''HEAD'']"
  by (simp add: rule_methods_def provide_automatic_options_def upper_GET)

lemma provide_automatic_options_GET:
  "provide_automatic_options \<lparr>rule = p, methods = [''GET''], endpoint = ep\<rparr>"
  by (simp add: provide_automatic_options_def upper_GET)

lemma rule_match_health:
  "rule_match ''/static/<path:filename>'' ''/health'' = None"
  "rule_match ''/health'' ''/health'' = Some []"
  "rule_match ''/'' ''/health'' = None"
  "rule_match ''/static/<path:filename>'' ''/'' = None"
  "rule_match ''/health'' ''/'' = None"
  "rule_match ''/'' ''/'' = Some []"
  by (simp_all add: rule_match_def)

lemma path_part_routes: "path_part ''/health'' = ''/health''" "path_part ''/'' = ''/''"
  by (simp_all add: path_part_def)

text \<open>The rule a request to one of the two paths is matched with.\<close>

lemma match_request_health:
  assumes "path req = ''/health''"
  shows "match_request (url_map (module_body dotenv environ static_folder)) False req =
           (if upper (method req) \<in> {''GET'', ''OPTIONS'', ''HEAD''}
            then Inr (\<lparr>rule = ''/health'', methods = [''GET''], endpoint = ''health_check''\<rparr>, [])
            else Inl MethodNotAllowed)"
  using assms
  by (simp add: url_map_module_body path_part_routes rule_match_health rule_methods_GET)

lemma match_request_root:
  assumes "path req = ''/''"
  shows "match_request (url_map (module_body dotenv environ static_folder)) False req =
           (if upper (method req) \<in> {''GET'', ''OPTIONS'', ''HEAD''}
            then Inr (\<lparr>rule = ''/'', methods = [''GET''], endpoint = ''root''\<rparr>, [])
            else Inl MethodNotAllowed)"
  using assms
  by (simp add: url_map_module_body path_part_routes rule_match_health rule_methods_GET)

text \<open>
  The answer to a request to one of the two paths, by its method: it does not depend on
  the environment, the \<^verbatim>\<open>.env\<close> file or the static folder.
\<close>

lemma dispatch_request_health:
  assumes "path req = ''/health''"
  shows "fst (dispatch_request req (module_body dotenv environ static_folder)) =
           (if upper (method req) = ''OPTIONS'' then (None, default_options_response)
            else if upper (method req) \<in> {''GET'', ''HEAD''}
            then (Some ''health_check'',
                  jsonify (JObject
                    [(''status'', JString ''healthy''),
                     (''service'', JString ''voice_transcription''),
                     (''version'', JString ''1.0.0'')]))
            else (None, error_response MethodNotAllowed))"
  using assms
  by (simp add: dispatch_request_def match_request_health provide_automatic_options_GET
      view_functions_def health_check_def)

lemma dispatch_request_root:
  assumes "path req = ''/''"
  shows "fst (dispatch_request req (module_body dotenv environ static_folder)) =
           (if upper (method req) = ''OPTIONS'' then (None, default_options_response)
            else if upper (method req) \<in> {''GET'', ''HEAD''}
            then (Some ''root'',
                  jsonify (JObject
                    [(''message'', JString ''Voice Transcription Service''),
                     (''status'', JString ''running''),
                     (''endpoints'', JArray [JString ''/health''])]))
            else (None, error_response MethodNotAllowed))"
  using assms
  by (simp add: dispatch_request_def match_request_root provide_automatic_options_GET
      view_functions_def root_def)

lemma wsgi_app_dispatch:
  "fst (wsgi_app req s) =
     (fst (fst (dispatch_request req s)),
      if method req = ''HEAD'' then (snd (fst (dispatch_request req s)))\<lparr>payload := None\<rparr>
      else snd (fst (dispatch_request req s)))"
  by (simp add: wsgi_app_def split: prod.splits)

text \<open>
  C1. Every \<^verbatim>\<open>GET\<close> request to \<^verbatim>\<open>/health\<close> is answered by \<open>health_check\<close> with status 200
  and the JSON object with status "healthy", service "voice_transcription" and version
  "1.0.0".
\<close>

theorem health_check_get:
  assumes "method req = ''GET''" and "path req = ''/health''"
  shows "fst (wsgi_app req (module_body dotenv environ static_folder)) =
           (Some ''health_check'',
            \<lparr>status_code = 200, mimetype = ''application/json'',
             payload = Some (JObject
               [(''status'', JString ''healthy''),
                (''service'', JString ''voice_transcription''),
                (''version'', JString ''1.0.0'')])\<rparr>)"
  using assms
  by (simp add: wsgi_app_dispatch dispatch_request_health upper_GET jsonify_def)

theorem health_check_get_witness:
  "fst (wsgi_app \<lparr>method = ''GET'', path = ''/health'', headers = [], data = []\<rparr>
          (module_body Map.empty Map.empty (\<lambda>filename hs. Inl NotFound))) =
     (Some ''health_check'',
      \<lparr>status_code = 200, mimetype = ''application/json'',
       payload = Some (JObject
         [(''status'', JString ''healthy''),
          (''service'', JString ''voice_transcription''),
          (''version'', JString ''1.0.0'')])\<rparr>)"
  using health_check_get
    [of "\<lparr>method = ''GET'', path = ''/health'', headers = [], data = []\<rparr>"
        Map.empty Map.empty "\<lambda>filename hs. Inl NotFound"]
  by simp

text \<open>
  C2. Every \<^verbatim>\<open>GET\<close> request to \<^verbatim>\<open>/\<close> is answered by \<open>root\<close> with status 200 and the JSON
  object with message "Voice Transcription Service", status "running" and endpoints
  equal to the one-element list of \<^verbatim>\<open>/health\<close>.
\<close>

theorem root_get:
  assumes "method req = ''GET''" and "path req = ''/''"
  shows "fst (wsgi_app req (module_body dotenv environ static_folder)) =
           (Some ''root'',
            \<lparr>status_code = 200, mimetype = ''application/json'',
             payload = Some (JObject
               [(''message'', JString ''Voice Transcription Service''),
                (''status'', JString ''running''),
                (''endpoints'', JArray [JString ''/health''])])\<rparr>)"
  using assms
  by (simp add: wsgi_app_dispatch dispatch_request_root upper_GET jsonify_def)

theorem root_get_witness:
  "fst (wsgi_app \<lparr>method = ''GET'', path = ''/'', headers = [(''Accept'', ''*/*'')], data = []\<rparr>
          (module_body Map.empty Map.empty (\<lambda>filename hs. Inl NotFound))) =
     (Some ''root'',
      \<lparr>status_code = 200, mimetype = ''application/json'',
       payload = Some (JObject
         [(''message'', JString ''Voice Transcription Service''),
          (''status'', JString ''running''),
          (''endpoints'', JArray [JString ''/health''])])\<rparr>)"
  using root_get
    [of "\<lparr>method = ''GET'', path = ''/'', headers = [(''Accept'', ''*/*'')], data = []\<rparr>"
        Map.empty Map.empty "\<lambda>filename hs. Inl NotFound"]
  by simp

subsection \<open>The table of rules\<close>

text \<open>
  C6, as stated: the table of rules has an entry for \<^verbatim>\<open>/health\<close> and \<^verbatim>\<open>/\<close> and for no other
  path. It has a third entry, the rule of the static folder that \<^verbatim>\<open>Flask(__name__)\<close>
  registers, and a request to a path under \<^verbatim>\<open>/static/\<close> is dispatched to its view.
\<close>

theorem static_rule_in_table:
  "find (\<lambda>r. rule r = ''/static/<path:filename>'')
     (url_map (module_body Map.empty Map.empty (\<lambda>filename hs. Inl NotFound))) =
     Some \<lparr>rule = ''/static/<path:filename>'', methods = [''GET''], endpoint = ''static''\<rparr>
   \<and> fst (wsgi_app \<lparr>method = ''GET'', path = ''/static/app.js'', headers = [], data = []\<rparr>
          (module_body Map.empty Map.empty (\<lambda>filename hs. Inl NotFound))) =
       (Some ''static'', \<lparr>status_code = 404, mimetype = ''text/html'', payload = None\<rparr>)"
  by (simp add: url_map_module_body wsgi_app_dispatch dispatch_request_def path_part_def
      rule_match_def rule_methods_GET upper_GET provide_automatic_options_GET
      view_functions_def static_view_def error_response_def send_static_file_module_body)

text \<open>
  C6, amended. The decorators of the module register exactly two rules, \<^verbatim>\<open>/health\<close> and
  \<^verbatim>\<open>/\<close>, in this order, and the view function of each returns the same JSON whatever the
  arguments, the request headers and the state; the only other entry of the table is the
  rule \<^verbatim>\<open>/static/<path:filename>\<close> of the framework, so the table has no entry for any
  rule text other than these three.
\<close>

theorem exactly_two_routes:
  "map rule (url_map (module_body dotenv environ static_folder)) =
     [''/static/<path:filename>'', ''/health'', ''/'']
   \<and> map rule (filter (\<lambda>r. endpoint r \<noteq> ''static'')
         (url_map (module_body dotenv environ static_folder))) = [''/health'', ''/'']
   \<and> map (\<lambda>r. map_option (\<lambda>f. fst (f view_args hs s)) (view_functions (endpoint r)))
         (filter (\<lambda>r. endpoint r \<noteq> ''static'')
           (url_map (module_body dotenv environ static_folder))) =
       [Some (Inr (jsonify (JObject
          [(''status'', JString ''healthy''),
           (''service'', JString ''voice_transcription''),
           (''version'', JString ''1.0.0'')]))),
        Some (Inr (jsonify (JObject
          [(''message'', JString ''Voice Transcription Service''),
           (''status'', JString ''running''),
           (''endpoints'', JArray [JString ''/health''])])))]
   \<and> (p \<noteq> ''/health'' \<longrightarrow> p \<noteq> ''/'' \<longrightarrow> p \<noteq> ''/static/<path:filename>'' \<longrightarrow>
        find (\<lambda>r. rule r = p) (url_map (module_body dotenv environ static_folder)) = None)"
  by (simp add: url_map_module_body view_functions_def health_check_def root_def)

theorem exactly_two_routes_witness:
  "map rule (url_map (module_body Map.empty Map.empty (\<lambda>filename hs. Inl NotFound))) =
     [''/static/<path:filename>'', ''/health'', ''/'']
   \<and> find (\<lambda>r. rule r = ''/transcribe'')
        (url_map (module_body Map.empty Map.empty (\<lambda>filename hs. Inl NotFound))) = None"
  using exactly_two_routes
    [of Map.empty Map.empty "\<lambda>filename hs. Inl NotFound" undefined undefined undefined
        "''/transcribe''"]
  by simp

text \<open>
  C10, as stated: the \<^verbatim>\<open>endpoints\<close> list of the root payload is the list of the registered
  rules other than \<^verbatim>\<open>/\<close>. The registered rules other than \<^verbatim>\<open>/\<close> are two, the rule of the
  static folder and \<^verbatim>\<open>/health\<close>, and the list names only the second.
\<close>

theorem endpoints_omit_static_rule:
  "filter (\<lambda>p. p \<noteq> ''/'')
     (map rule (url_map (module_body Map.empty Map.empty (\<lambda>filename hs. Inl NotFound)))) =
     [''/static/<path:filename>'', ''/health'']
   \<and> Option.bind
        (payload (fst (root (module_body Map.empty Map.empty (\<lambda>filename hs. Inl NotFound)))))
        (\<lambda>j. json_get j ''endpoints'') = Some (JArray [JString ''/health''])"
  by (simp add: url_map_module_body root_def jsonify_def json_get_def)

text \<open>
  C10, amended. The \<^verbatim>\<open>endpoints\<close> list of the root payload is the list of the rules that
  the decorators of the module register (the registered rules without the rule of the
  static folder) other than \<^verbatim>\<open>/\<close> itself, which is the single path \<^verbatim>\<open>/health\<close>.
\<close>

theorem endpoints_consistent_with_routes:
  "Option.bind (payload (fst (root s))) (\<lambda>j. json_get j ''endpoints'') =
     Some (JArray (map JString (map rule
       (filter (\<lambda>r. rule r \<noteq> ''/'' \<and> endpoint r \<noteq> ''static'')
         (url_map (module_body dotenv environ static_folder))))))
   \<and> map rule (filter (\<lambda>r. rule r \<noteq> ''/'' \<and> endpoint r \<noteq> ''static'')
         (url_map (module_body dotenv environ static_folder))) = [''/health'']"
  by (simp add: url_map_module_body root_def jsonify_def json_get_def)

subsection \<open>The state is never written, the responses never depend on it\<close>

lemma view_functions_frame: "view_functions ep = Some f \<Longrightarrow> snd (f view_args hs s) = s"
  by (auto simp: view_functions_def static_view_def health_check_def root_def
      split: if_splits option.splits)

lemma dispatch_request_frame: "snd (dispatch_request req s) = s"
proof (cases "match_request (url_map s) False req")
  case (Inl e)
  then show ?thesis by (simp add: dispatch_request_def)
next
  case (Inr m)
  obtain r view_args where m: "m = (r, view_args)" by (cases m)
  show ?thesis
  proof (cases "view_functions (endpoint r)")
    case None
    with Inr m show ?thesis by (simp add: dispatch_request_def)
  next
    case (Some f)
    from view_functions_frame [OF Some, of view_args "headers req" s] Inr m Some show ?thesis
      by (auto simp: dispatch_request_def split: prod.splits sum.splits)
  qed
qed

lemma wsgi_app_frame: "snd (wsgi_app req s) = s"
  using dispatch_request_frame [of req s]
  by (auto simp: wsgi_app_def split: prod.splits)

lemma serve_frame: "snd (serve reqs s) = s"
proof (induction reqs arbitrary: s)
  case Nil
  show ?case by simp
next
  case (Cons req reqs)
  from wsgi_app_frame [of req s] Cons.IH [of s] show ?case
    by (auto split: prod.splits)
qed

lemma serve_pointwise: "fst (serve reqs s) = map (\<lambda>req. snd (fst (wsgi_app req s))) reqs"
proof (induction reqs)
  case Nil
  show ?case by simp
next
  case (Cons req reqs)
  from wsgi_app_frame [of req s] Cons.IH show ?case
    by (auto split: prod.splits)
qed

text \<open>
  C7. Handling a request to \<^verbatim>\<open>/health\<close> or \<^verbatim>\<open>/\<close> has no side effect: each view function
  and the dispatch of each such request return the process state they were given, and in
  a sequence of such requests every request gets the response it would get alone.
\<close>

theorem handlers_no_side_effects:
  "snd (health_check s) = s \<and> snd (root s) = s
   \<and> (path req = ''/health'' \<or> path req = ''/'' \<longrightarrow> snd (wsgi_app req s) = s)
   \<and> ((\<forall>r \<in> set reqs. path r = ''/health'' \<or> path r = ''/'') \<longrightarrow>
        snd (serve reqs s) = s
        \<and> fst (serve reqs s) = map (\<lambda>r. snd (fst (wsgi_app r s))) reqs)"
  by (simp add: health_check_def root_def wsgi_app_frame serve_frame serve_pointwise)

theorem handlers_no_side_effects_witness:
  "snd (wsgi_app \<lparr>method = ''GET'', path = ''/health'', headers = [], data = []\<rparr>
          (module_body Map.empty Map.empty (\<lambda>filename hs. Inl NotFound))) =
     module_body Map.empty Map.empty (\<lambda>filename hs. Inl NotFound)
   \<and> snd (serve [\<lparr>method = ''GET'', path = ''/'', headers = [], data = []\<rparr>,
                  \<lparr>method = ''GET'', path = ''/health'', headers = [], data = []\<rparr>]
            (module_body Map.empty Map.empty (\<lambda>filename hs. Inl NotFound))) =
       module_body Map.empty Map.empty (\<lambda>filename hs. Inl NotFound)"
  using handlers_no_side_effects
    [of "module_body Map.empty Map.empty (\<lambda>filename hs. Inl NotFound)"
        "\<lparr>method = ''GET'', path = ''/health'', headers = [], data = []\<rparr>"
        "[\<lparr>method = ''GET'', path = ''/'', headers = [], data = []\<rparr>,
          \<lparr>method = ''GET'', path = ''/health'', headers = [], data = []\<rparr>]"]
  by simp

text \<open>
  C4. The two view functions are deterministic and stateless: in any two runs of the
  process (whatever the environment, the \<^verbatim>\<open>.env\<close> file and the static folder) and after any
  two sequences of earlier requests, the same request to \<^verbatim>\<open>/health\<close> or \<^verbatim>\<open>/\<close> gets the same
  response, and the payload of each view function is the same in every state.
\<close>

theorem responses_deterministic:
  "(path req = ''/health'' \<or> path req = ''/'' \<longrightarrow>
      fst (wsgi_app req (snd (serve reqs1 (module_body dotenv1 environ1 static_folder1)))) =
      fst (wsgi_app req (snd (serve reqs2 (module_body dotenv2 environ2 static_folder2)))))
   \<and> fst (health_check s1) = fst (health_check s2)
   \<and> fst (root s1) = fst (root s2)"
proof -
  have "fst (wsgi_app req (module_body dotenv1 environ1 static_folder1)) =
        fst (wsgi_app req (module_body dotenv2 environ2 static_folder2))"
    if "path req = ''/health'' \<or> path req = ''/''"
    using that
    by (auto simp: wsgi_app_dispatch dispatch_request_health dispatch_request_root)
  then show ?thesis
    by (simp add: serve_frame health_check_def root_def)
qed

theorem responses_deterministic_witness:
  "fst (wsgi_app \<lparr>method = ''GET'', path = ''/health'', headers = [], data = []\<rparr>
         (snd (serve [\<lparr>method = ''GET'', path = ''/'', headers = [], data = []\<rparr>]
                 (module_body Map.empty Map.empty (\<lambda>filename hs. Inl NotFound))))) =
   fst (wsgi_app \<lparr>method = ''GET'', path = ''/health'', headers = [], data = []\<rparr>
         (snd (serve [\<lparr>method = ''POST'', path = ''/health'', headers = [], data = ''x''\<rparr>,
                      \<lparr>method = ''GET'', path = ''/static/app.js'', headers = [], data = []\<rparr>]
                 (module_body Map.empty (Map.empty(''PORT'' \<mapsto> ''8080''))
                    (\<lambda>filename hs. Inr (jsonify (JString filename)))))))"
  using responses_deterministic
    [of "\<lparr>method = ''GET'', path = ''/health'', headers = [], data = []\<rparr>"
        "[\<lparr>method = ''GET'', path = ''/'', headers = [], data = []\<rparr>]"
        Map.empty Map.empty "\<lambda>filename hs. Inl NotFound"
        "[\<lparr>method = ''POST'', path = ''/health'', headers = [], data = ''x''\<rparr>,
          \<lparr>method = ''GET'', path = ''/static/app.js'', headers = [], data = []\<rparr>]"
        Map.empty "Map.empty(''PORT'' \<mapsto> ''8080'')"
        "\<lambda>filename hs. Inr (jsonify (JString filename))"]
  by simp

subsection \<open>Methods other than \<^verbatim>\<open>GET\<close>\<close>

text \<open>
  C8, as stated: a request to \<^verbatim>\<open>/health\<close> or \<^verbatim>\<open>/\<close> with any method other than \<^verbatim>\<open>GET\<close>
  calls neither view function and is rejected. A \<^verbatim>\<open>HEAD\<close> request to \<^verbatim>\<open>/health\<close> is such a
  request: it calls \<open>health_check\<close> and is answered with status 200.
\<close>

theorem head_request_calls_health_check:
  "fst (wsgi_app \<lparr>method = ''HEAD'', path = ''/health'', headers = [], data = []\<rparr>
          (module_body Map.empty Map.empty (\<lambda>filename hs. Inl NotFound))) =
     (Some ''health_check'',
      \<lparr>status_code = 200, mimetype = ''application/json'', payload = None\<rparr>)"
  by (simp add: wsgi_app_dispatch dispatch_request_health upper_HEAD jsonify_def)

text \<open>
  C8, amended. Both rules of the module are declared with the method list \<^verbatim>\<open>['GET']\<close>, and
  a request to \<^verbatim>\<open>/health\<close> or \<^verbatim>\<open>/\<close> whose method, put in upper case as the routing layer
  does, is none of \<^verbatim>\<open>GET\<close>, \<^verbatim>\<open>HEAD\<close> and \<^verbatim>\<open>OPTIONS\<close> calls no view function and is answered
  with 405 Method Not Allowed.
\<close>

theorem other_methods_rejected:
  assumes "path req = ''/health'' \<or> path req = ''/''"
    and "upper (method req) \<noteq> ''GET''" and "upper (method req) \<noteq> ''HEAD''"
    and "upper (method req) \<noteq> ''OPTIONS''"
  shows "map methods (filter (\<lambda>r. endpoint r \<noteq> ''static'')
           (url_map (module_body dotenv environ static_folder))) = [[''GET''], [''GET'']]
         \<and> fst (wsgi_app req (module_body dotenv environ static_folder)) =
             (None, \<lparr>status_code = 405, mimetype = ''text/html'', payload = None\<rparr>)"
  using assms
  by (auto simp: wsgi_app_dispatch dispatch_request_health dispatch_request_root
      url_map_module_body error_response_def)

lemma upper_examples: "upper ''POST'' = ''POST''" "upper ''delete'' = ''DELETE''"
  by (simp_all add: upper_def upper_char_def lower_letters_def upper_letters_def)

theorem other_methods_rejected_witness:
  "fst (wsgi_app \<lparr>method = ''POST'', path = ''/health'', headers = [], data = ''{}''\<rparr>
          (module_body Map.empty Map.empty (\<lambda>filename hs. Inl NotFound))) =
     (None, \<lparr>status_code = 405, mimetype = ''text/html'', payload = None\<rparr>)
   \<and> fst (wsgi_app \<lparr>method = ''delete'', path = ''/'', headers = [], data = []\<rparr>
          (module_body Map.empty Map.empty (\<lambda>filename hs. Inl NotFound))) =
     (None, \<lparr>status_code = 405, mimetype = ''text/html'', payload = None\<rparr>)"
  using other_methods_rejected
    [of "\<lparr>method = ''POST'', path = ''/health'', headers = [], data = ''{}''\<rparr>"
        Map.empty Map.empty "\<lambda>filename hs. Inl NotFound"]
    other_methods_rejected
    [of "\<lparr>method = ''delete'', path = ''/'', headers = [], data = []\<rparr>"
        Map.empty Map.empty "\<lambda>filename hs. Inl NotFound"]
  by (simp add: upper_examples)

text \<open>The method of a request is compared in upper case: \<^verbatim>\<open>get\<close> is answered as \<^verbatim>\<open>GET\<close> is.\<close>

lemma lower_case_get_answered:
  "fst (fst (wsgi_app \<lparr>method = ''get'', path = ''/health'', headers = [], data = []\<rparr>
               (module_body Map.empty Map.empty (\<lambda>filename hs. Inl NotFound)))) =
     Some ''health_check''"
  by (simp add: wsgi_app_dispatch dispatch_request_health upper_def upper_char_def
      lower_letters_def upper_letters_def)

subsection \<open>The listening port\<close>

lemma is_digit_digit_char: "d < 10 \<Longrightarrow> is_digit (digit_char d)"
proof -
  assume "d < 10"
  then have "d \<in> {0, 1, 2, 3, 4, 5, 6, 7, 8, 9}" by auto
  then show ?thesis by (auto simp: is_digit_def digit_char_def)
qed

lemma digit_value_digit_char: "d < 10 \<Longrightarrow> digit_value (digit_char d) = d"
proof -
  assume "d < 10"
  then have "d \<in> {0, 1, 2, 3, 4, 5, 6, 7, 8, 9}" by auto
  then show ?thesis by (auto simp: digit_value_def digit_char_def)
qed

lemma digit_not_space: "is_digit c \<Longrightarrow> \<not> is_space c"
  by (auto simp: is_digit_def is_space_def)

lemma digit_not_sign: "is_digit c \<Longrightarrow> c \<noteq> CHR ''+'' \<and> c \<noteq> CHR ''-'' \<and> c \<noteq> CHR ''_''"
  by (auto simp: is_digit_def)

lemma digit_ascii: "is_digit c \<Longrightarrow> (of_char c :: nat) < 128"
  by (auto simp: is_digit_def)

lemma scan_digits_digit:
  "is_digit c \<Longrightarrow> scan_digits acc (c # cs) = scan_digits (10 * acc + digit_value c) cs"
  by (cases cs) simp_all

lemma str_nat_not_Nil: "str_nat n \<noteq> []"
  by (subst str_nat.simps) simp

text \<open>Scanning a numeral shifts the accumulator by its length and adds its value.\<close>

lemma scan_digits_str_nat:
  "scan_digits acc (str_nat n @ rest) = scan_digits (acc * 10 ^ length (str_nat n) + n) rest"
proof (induction n arbitrary: acc rest rule: str_nat.induct)
  case (1 n)
  show ?case
  proof (cases "n < 10")
    case True
    then show ?thesis
      by (subst (1 2) str_nat.simps)
         (simp add: scan_digits_digit is_digit_digit_char digit_value_digit_char mult.commute)
  next
    case False
    have d: "n mod 10 < 10" by simp
    have "scan_digits acc (str_nat n @ rest) =
          scan_digits acc (str_nat (n div 10) @ (digit_char (n mod 10) # rest))"
      using False by (subst str_nat.simps) simp
    also have "\<dots> = scan_digits (acc * 10 ^ length (str_nat (n div 10)) + n div 10)
                        (digit_char (n mod 10) # rest)"
      using False by (rule "1.IH")
    also have "\<dots> = scan_digits
                 (10 * (acc * 10 ^ length (str_nat (n div 10)) + n div 10) + n mod 10) rest"
      by (simp add: scan_digits_digit is_digit_digit_char [OF d] digit_value_digit_char [OF d])
    also have "10 * (acc * 10 ^ length (str_nat (n div 10)) + n div 10) + n mod 10 =
               acc * 10 ^ length (str_nat n) + n"
      using False by (subst (2) str_nat.simps) (simp add: algebra_simps)
    finally show ?thesis .
  qed
qed

lemma str_nat_digits: "list_all is_digit (str_nat n)"
proof (induction n rule: str_nat.induct)
  case (1 n)
  show ?case
  proof (cases "n < 10")
    case True
    then show ?thesis by (subst str_nat.simps) (simp add: is_digit_digit_char)
  next
    case False
    with "1.IH" show ?thesis
      by (subst str_nat.simps) (simp add: is_digit_digit_char)
  qed
qed

lemma hd_str_nat: "is_digit (hd (str_nat n))"
  using str_nat_digits [of n] str_nat_not_Nil [of n] by (cases "str_nat n") auto

text \<open>A number below \<open>10 ^ k\<close> has at most \<open>k\<close> digits.\<close>

lemma length_str_nat: "n < 10 ^ k \<Longrightarrow> 0 < k \<Longrightarrow> length (str_nat n) \<le> k"
proof (induction n arbitrary: k rule: str_nat.induct)
  case (1 n)
  show ?case
  proof (cases "n < 10")
    case True
    with "1.prems" show ?thesis by (subst str_nat.simps) simp
  next
    case False
    with "1.prems" obtain j where k: "k = Suc j" by (cases k) auto
    with False "1.prems" have "0 < j" by (cases j) auto
    moreover from k "1.prems" have "n div 10 < 10 ^ j" by simp
    ultimately have "length (str_nat (n div 10)) \<le> j"
      using False by (intro "1.IH") auto
    with False k show ?thesis by (subst str_nat.simps) simp
  qed
qed

lemma ascii_short_str_nat: "n \<le> 65535 \<Longrightarrow> ascii_short (str_nat n)"
proof -
  assume "n \<le> 65535"
  then have "n < 10 ^ 5" by simp
  then have "length (str_nat n) \<le> 5" by (rule length_str_nat) simp
  moreover have "list_all (\<lambda>c. (of_char c :: nat) < 128) (str_nat n)"
    using str_nat_digits [of n] by (auto simp: list_all_iff digit_ascii)
  ultimately show ?thesis by (simp add: ascii_short_def)
qed

text \<open>\<^verbatim>\<open>int(str(n)) == n\<close> for a natural number.\<close>

lemma int_literal_str_nat: "int_literal (str_nat n) = Inr (int n)"
proof -
  obtain c cs where s: "str_nat n = c # cs"
    using str_nat_not_Nil [of n] by (cases "str_nat n") auto
  with hd_str_nat [of n] have c: "is_digit c" by simp
  have "scan_digits 0 (str_nat n) = Some (n, [])"
    using scan_digits_str_nat [of 0 n "[]"] by simp
  with s c show ?thesis
    using digit_not_space [OF c] digit_not_sign [OF c]
    by (simp add: int_literal_def unsigned_def)
qed

lemma py_int_str_nat: "n \<le> 65535 \<Longrightarrow> py_int (PyStr (str_nat n)) = Some (Inr (int n))"
  by (simp add: ascii_short_str_nat int_literal_str_nat)

declare py_int.simps [simp del]

lemma str_nat_8080: "str_nat 8080 = ''8080''"
  by (simp add: str_nat.simps digit_char_def)

lemma str_nat_7000: "str_nat 7000 = ''7000''"
  by (simp add: str_nat.simps digit_char_def)

lemma os_environ_module_body:
  "os_environ (module_body dotenv environ static_folder) = dotenv ++ environ"
  by (simp add: module_body_def load_dotenv_def Flask_def app_route_def)

lemma run_script_PORT:
  "run_script dotenv environ static_folder =
     (case (dotenv ++ environ) ''PORT'' of
        None \<Rightarrow> Some (App_run ''0.0.0.0'' 9001 True)
      | Some v \<Rightarrow>
          (case py_int (PyStr v) of
             None \<Rightarrow> None
           | Some (Inl e) \<Rightarrow> Some (Raised e)
           | Some (Inr port) \<Rightarrow> Some (App_run ''0.0.0.0'' port True)))"
proof (cases "(dotenv ++ environ) ''PORT''")
  case None
  then show ?thesis
    by (simp add: run_script_def main_def environ_get_def os_environ_module_body
        py_int.simps(1) del: map_add_None)
next
  case (Some v)
  then show ?thesis
    by (simp add: run_script_def main_def environ_get_def os_environ_module_body)
qed

text \<open>
  C3, as stated: started with \<^verbatim>\<open>PORT\<close> unset, the process listens on port 9001. With \<^verbatim>\<open>PORT\<close>
  unset in the environment of the process and a \<^verbatim>\<open>.env\<close> file that holds \<^verbatim>\<open>PORT=7000\<close>,
  \<^verbatim>\<open>load_dotenv()\<close> sets the variable and the listener is started on port 7000.
\<close>

theorem dotenv_sets_port:
  "run_script (Map.empty(''PORT'' \<mapsto> ''7000'')) Map.empty (\<lambda>filename hs. Inl NotFound) =
     Some (App_run ''0.0.0.0'' 7000 True)"
  using py_int_str_nat [of 7000]
  by (simp add: run_script_PORT str_nat_7000)

text \<open>
  C3, amended. The port is computed from the variable \<^verbatim>\<open>PORT\<close> of \<^verbatim>\<open>os.environ\<close> as
  \<^verbatim>\<open>load_dotenv()\<close> leaves it. With \<^verbatim>\<open>PORT\<close> set neither in the environment of the process nor
  in the \<^verbatim>\<open>.env\<close> file the listener is started on port 9001; with \<^verbatim>\<open>PORT\<close> set in the
  environment to the decimal numeral of a port number \<open>n\<close>, such as \<^verbatim>\<open>8080\<close>, it is started
  on port \<open>n\<close>, whatever the file holds; and with \<^verbatim>\<open>PORT\<close> set by the file only, on the port
  the file names.
\<close>

theorem listening_port:
  "(environ ''PORT'' = None \<and> dotenv ''PORT'' = None \<longrightarrow>
      run_script dotenv environ static_folder = Some (App_run ''0.0.0.0'' 9001 True))
   \<and> (0 < n \<and> n \<le> 65535 \<and> environ ''PORT'' = Some (str_nat n) \<longrightarrow>
      run_script dotenv environ static_folder = Some (App_run ''0.0.0.0'' (int n) True))
   \<and> (environ ''PORT'' = Some ''8080'' \<longrightarrow>
      run_script dotenv environ static_folder = Some (App_run ''0.0.0.0'' 8080 True))
   \<and> (0 < n \<and> n \<le> 65535 \<and> environ ''PORT'' = None \<and> dotenv ''PORT'' = Some (str_nat n) \<longrightarrow>
      run_script dotenv environ static_folder = Some (App_run ''0.0.0.0'' (int n) True))
   \<and> (os_environ s ''PORT'' = os_environ s' ''PORT'' \<longrightarrow> main s = main s')"
proof -
  have "run_script dotenv environ static_folder = Some (App_run ''0.0.0.0'' (int m) True)"
    if "m \<le> 65535" and "(dotenv ++ environ) ''PORT'' = Some (str_nat m)" for m
    using that by (simp add: run_script_PORT py_int_str_nat)
  from this [of n] this [of 8080] show ?thesis
    by (auto simp: run_script_PORT main_def environ_get_def str_nat_8080 map_add_def
        split: option.splits)
qed

theorem listening_port_witness:
  "run_script Map.empty Map.empty (\<lambda>filename hs. Inl NotFound) =
     Some (App_run ''0.0.0.0'' 9001 True)
   \<and> run_script (Map.empty(''PORT'' \<mapsto> ''7000'')) (Map.empty(''PORT'' \<mapsto> ''8080''))
        (\<lambda>filename hs. Inl NotFound) = Some (App_run ''0.0.0.0'' 8080 True)
   \<and> run_script (Map.empty(''PORT'' \<mapsto> str_nat 443)) (Map.empty(''HOME'' \<mapsto> ''/root''))
        (\<lambda>filename hs. Inl NotFound) = Some (App_run ''0.0.0.0'' 443 True)"
  using listening_port
      [of Map.empty Map.empty "\<lambda>filename hs. Inl NotFound" 0 undefined undefined]
    listening_port
      [of "Map.empty(''PORT'' \<mapsto> ''8080'')" "Map.empty(''PORT'' \<mapsto> ''7000'')"
          "\<lambda>filename hs. Inl NotFound" 8080 undefined undefined]
    listening_port
      [of "Map.empty(''HOME'' \<mapsto> ''/root'')" "Map.empty(''PORT'' \<mapsto> str_nat 443)"
          "\<lambda>filename hs. Inl NotFound" 443 undefined undefined]
  by (simp add: str_nat_8080)

subsection \<open>Strings that \<^verbatim>\<open>int()\<close> accepts\<close>






















section \<open>The legacy module has no definitions\<close>

text \<open>
  C5. The module \<^verbatim>\<open>pre_diagnosis_summary_service.py\<close> defines neither the class
  \<^verbatim>\<open>PreDiagnosisSummaryService\<close> nor any of the methods \<^verbatim>\<open>process_questionnaire_data\<close>,
  \<^verbatim>\<open>extract_key_medical_history\<close> and \<^verbatim>\<open>generate_summary\<close> that the test file calls, and
  the import of the class at the top of the test file raises \<^verbatim>\<open>ImportError\<close>.
\<close>

theorem legacy_import_fails:
  "''PreDiagnosisSummaryService'' \<notin> set (map bound_name pre_diagnosis_summary_service)
   \<and> set [''process_questionnaire_data'', ''extract_key_medical_history'', ''generate_summary'']
       \<inter> set (map bound_name pre_diagnosis_summary_service
               @ concat (map method_names pre_diagnosis_summary_service)) = {}
   \<and> test_module_import = Inl ImportError"
  by (simp add: pre_diagnosis_summary_service_def test_module_import_def import_from_def
      module_attributes_def)

end
